theory Spec2Isabelle
  imports Main "HOL-Library.Word"
begin

section \<open>The feedback collector: a shallow embedding of \<^verbatim>\<open>server.py\<close>\<close>

text \<open>
  The program is a Qt dialog (\<^verbatim>\<open>FeedbackDialog\<close>) and three tool functions
  (\<^verbatim>\<open>collect_feedback\<close>, \<^verbatim>\<open>pick_image\<close>, \<^verbatim>\<open>get_image_info\<close>). The embedding keeps the
  logic of every handler and makes its surroundings explicit:
  \<^item> the file system, the two image decoders (PIL and Qt) and Qt's image encoder are the
    fields of an environment record, each returning an error value where the library
    call can raise;
  \<^item> what the user does while the dialog runs is a list of events, and Qt's event loop is
    a recursion over that list;
  \<^item> the dialog object is a record, and every handler returns the updated record;
  \<^item> message boxes are logged in the record, in the order they are shown. Output of
    \<^verbatim>\<open>print\<close> and the layout of the widgets are not modelled.
\<close>

subsection \<open>Strings and bytes\<close>

text \<open>
  A Python \<^verbatim>\<open>str\<close> is a sequence of Unicode code points, so it is a list of naturals
  here (the placeholder of the text field is Chinese, beyond 8-bit characters); \<open>str\<close>
  turns an ASCII literal into one. \<^verbatim>\<open>bytes\<close> is a list of 8-bit words.
\<close>

type_synonym pystr = "nat list"
type_synonym bytes = "8 word list"

definition str :: "string \<Rightarrow> pystr" where
  "str s = map of_char s"

text \<open>
  \<^verbatim>\<open>str.isspace\<close> for one code point: the white space of CPython's Unicode database.
  \<^verbatim>\<open>str.strip()\<close> removes such code points from both ends.
\<close>

definition isspace :: "nat \<Rightarrow> bool" where
  "isspace c \<longleftrightarrow>
     (9 \<le> c \<and> c \<le> 13) \<or> (28 \<le> c \<and> c \<le> 32) \<or> c = 133 \<or> c = 160 \<or> c = 5760
     \<or> (8192 \<le> c \<and> c \<le> 8202) \<or> c = 8232 \<or> c = 8233 \<or> c = 8239 \<or> c = 8287
     \<or> c = 12288"

definition strip :: "pystr \<Rightarrow> pystr" where
  "strip s = rev (dropWhile isspace (rev (dropWhile isspace s)))"

text \<open>
  \<^verbatim>\<open>str.lower()\<close> on the ASCII letters; other code points are left as they are (the
  format names it is applied to are PIL's ASCII names). \<open>isupper_ascii\<close> is the
  property that \<open>lower\<close> removes.
\<close>

definition lower_char :: "nat \<Rightarrow> nat" where
  "lower_char c = (if 65 \<le> c \<and> c \<le> 90 then c + 32 else c)"

definition lower :: "pystr \<Rightarrow> pystr" where
  "lower s = map lower_char s"


text \<open>\<^verbatim>\<open>str(n)\<close> for a non-negative integer: its decimal digits.\<close>

function str_nat :: "nat \<Rightarrow> pystr" where
  "str_nat n = (if n < 10 then [48 + n] else str_nat (n div 10) @ [48 + n mod 10])"
  by pat_completeness auto
termination
  by (relation "measure id") auto

declare str_nat.simps [simp del]

text \<open>
  \<^verbatim>\<open>Path(p).name\<close> in the POSIX flavour: the last component of the path, where empty
  components and \<^verbatim>\<open>.\<close> do not count; the empty string when there is none.
\<close>

fun split_path :: "pystr \<Rightarrow> pystr \<Rightarrow> pystr list" where
  "split_path cur [] = [cur]"
| "split_path cur (c # cs) = (if c = 47 then cur # split_path [] cs else split_path (cur @ [c]) cs)"

definition path_name :: "pystr \<Rightarrow> pystr" where
  "path_name p =
     (let parts = filter (\<lambda>s. s \<noteq> [] \<and> s \<noteq> str ''.'') (split_path [] p)
      in if parts = [] then [] else last parts)"

subsection \<open>Base64\<close>

text \<open>
  \<^verbatim>\<open>base64.b64encode\<close> (RFC 4648, the standard alphabet, padding with \<^verbatim>\<open>=\<close>, code
  point 61): three bytes become four sextets, a last group of one or two bytes is filled
  with zero bits and padded. \<open>b64decode\<close> is the decoder of the same format, which the
  program does not call; it is here to state what a receiver decodes.
\<close>

definition b64_alphabet :: pystr where
  "b64_alphabet = str ''ABCDEFGHIJKLMNOPQRSTUVWXYZabcdefghijklmnopqrstuvwxyz0123456789+/''"

definition b64_char :: "nat \<Rightarrow> nat" where
  "b64_char n = b64_alphabet ! n"

definition sextet1 :: "8 word \<Rightarrow> nat" where
  "sextet1 a = unat a div 4"

definition sextet2 :: "8 word \<Rightarrow> 8 word \<Rightarrow> nat" where
  "sextet2 a b = unat a mod 4 * 16 + unat b div 16"

definition sextet3 :: "8 word \<Rightarrow> 8 word \<Rightarrow> nat" where
  "sextet3 b c = unat b mod 16 * 4 + unat c div 64"

definition sextet4 :: "8 word \<Rightarrow> nat" where
  "sextet4 c = unat c mod 64"

fun b64encode :: "bytes \<Rightarrow> pystr" where
  "b64encode [] = []"
| "b64encode [a] =
     [b64_char (sextet1 a), b64_char (sextet2 a 0), 61, 61]"
| "b64encode [a, b] =
     [b64_char (sextet1 a), b64_char (sextet2 a b), b64_char (sextet3 b 0), 61]"
| "b64encode (a # b # c # rest) =
     [b64_char (sextet1 a), b64_char (sextet2 a b), b64_char (sextet3 b c),
      b64_char (sextet4 c)] @ b64encode rest"






subsection \<open>The environment: files, decoders, clipboard, clock\<close>

text \<open>
  An exception is a value: \<^verbatim>\<open>FileNotFoundError\<close>, which \<^verbatim>\<open>get_image_info\<close> tells
  apart, or any other \<^verbatim>\<open>Exception\<close> with its message \<^verbatim>\<open>str(e)\<close>.
\<close>

datatype exn = FileNotFoundError | Exception pystr

text \<open>What the program reads of a PIL image: \<^verbatim>\<open>format\<close> (or \<^verbatim>\<open>None\<close>) and \<^verbatim>\<open>size\<close>.\<close>

record pil_image =
  pil_format :: "pystr option"
  pil_size :: "nat \<times> nat"

text \<open>
  A \<^verbatim>\<open>QImage\<close>, with what \<^verbatim>\<open>isNull()\<close> answers and its pixel data; the clipboard, with
  what \<^verbatim>\<open>mimeData().hasImage()\<close> answers and the image \<^verbatim>\<open>image()\<close> returns.
\<close>

datatype QImage = QImage (isNull: bool) (bits: "nat list")

record QClipboard =
  hasImage :: bool
  clipboard_image :: QImage

text \<open>\<^verbatim>\<open>datetime.now()\<close>.\<close>

record datetime =
  year :: nat
  month :: nat
  day :: nat
  hour :: nat
  minute :: nat
  second :: nat

text \<open>
  The library calls whose results the program depends on:
  \<^item> \<open>read_file p\<close>: \<^verbatim>\<open>open(p, "rb").read()\<close>;
  \<^item> \<open>Image_open b\<close>: \<^verbatim>\<open>Image.open(io.BytesIO(b))\<close>;
  \<^item> \<open>loadFromData b\<close>: whether the \<^verbatim>\<open>QPixmap\<close> is non-null after
    \<^verbatim>\<open>pixmap.loadFromData(b)\<close>;
  \<^item> \<open>save q fmt\<close>: the bytes in the buffer after \<^verbatim>\<open>q.save(buffer, fmt)\<close> (Qt
    reports a failed save by its result, which the program does not read; the buffer is
    then empty), or the exception that sends the program to its \<^verbatim>\<open>except\<close> branch.
\<close>

record env =
  read_file :: "pystr \<Rightarrow> exn + bytes"
  Image_open :: "bytes \<Rightarrow> exn + pil_image"
  loadFromData :: "bytes \<Rightarrow> bool"
  save :: "QImage \<Rightarrow> pystr \<Rightarrow> exn + bytes"

text \<open>
  \<^verbatim>\<open>strftime("%Y%m%d_%H%M%S")\<close>: every field zero-padded to its width (four digits for
  the year, two for the others), with an underscore (code point 95) between date and time.
  Not every C library pads a year below 1000; what is proved about the form of the time
  stamp is for a four-digit year, where padding the year changes nothing.
\<close>

definition zfill :: "nat \<Rightarrow> pystr \<Rightarrow> pystr" where
  "zfill w s = replicate (w - length s) 48 @ s"

definition strftime :: "datetime \<Rightarrow> pystr" where
  "strftime t =
     zfill 4 (str_nat (year t)) @ zfill 2 (str_nat (month t)) @ zfill 2 (str_nat (day t))
     @ [95]
     @ zfill 2 (str_nat (hour t)) @ zfill 2 (str_nat (minute t)) @ zfill 2 (str_nat (second t))"

definition clipboard_filename :: "datetime \<Rightarrow> pystr" where
  "clipboard_filename now = str ''clipboard_image_'' @ strftime now @ str ''.png''"

subsection \<open>The dialog's data\<close>

text \<open>
  An entry of \<^verbatim>\<open>selected_images_data\<close>: the dictionary with the keys \<^verbatim>\<open>data\<close>,
  \<^verbatim>\<open>filename\<close> and \<^verbatim>\<open>pixmap\<close>. The preview pixmap is kept as the way it was made.
\<close>

datatype QPixmap = Pixmap_loadFromData bytes | Pixmap_fromImage QImage

record selected_image =
  img_data :: bytes
  img_filename :: pystr
  img_pixmap :: QPixmap

text \<open>
  What \<^verbatim>\<open>submit_feedback_pyside\<close> emits: a list of strings and of dictionaries with the
  keys \<^verbatim>\<open>type\<close>, \<^verbatim>\<open>base64_data\<close>, \<^verbatim>\<open>format\<close> and \<^verbatim>\<open>filename\<close>.
\<close>

record mcp_image_dict =
  dict_type :: pystr
  dict_base64_data :: pystr
  dict_format :: pystr
  dict_filename :: pystr

datatype feedback_item = PyStr pystr | PyDict mcp_image_dict

text \<open>The message boxes the program shows, with the variable part of their text.\<close>

datatype QMessageBox = warning pystr | critical pystr exn | information | question

datatype StandardButton = Yes | No

datatype DialogCode = Rejected | Accepted

record QTextEdit =
  plainText :: pystr
  placeholderText :: pystr

text \<open>
  The dialog object. \<open>timeout_timer\<close> is the single-shot timer: the milliseconds left
  until it fires, \<open>None\<close> when no timer runs. \<open>feedback_submitted\<close> holds the values the
  signal of that name has emitted, in order (\<open>None\<close> is the \<^verbatim>\<open>None\<close> that
  \<^verbatim>\<open>handle_timeout\<close> emits). \<open>dialog_code\<close> is \<open>None\<close> while the dialog is open, then
  the code \<^verbatim>\<open>accept()\<close> or \<^verbatim>\<open>reject()\<close> closed it with.
\<close>

record FeedbackDialog =
  work_summary :: pystr
  timeout_seconds :: int
  selected_images_data :: "selected_image list"
  text_widget :: QTextEdit
  timeout_timer :: "int option"
  feedback_submitted :: "feedback_item list option list"
  dialog_code :: "DialogCode option"
  shown :: "QMessageBox list"

text \<open>The placeholder of the text field, the string literal of \<^verbatim>\<open>setPlaceholderText\<close>.\<close>

definition feedback_placeholder :: pystr where
  "feedback_placeholder =
     [35831, 22312, 27492, 36755, 20837, 24744, 30340, 21453, 39304, 12289, 24314, 35758,
      25110, 38382, 39064, 46, 46, 46]"

text \<open>
  \<^verbatim>\<open>__init__\<close>: no image, an empty text field, and the timer started with
  \<^verbatim>\<open>timeout_seconds * 1000\<close> milliseconds only when \<^verbatim>\<open>timeout_seconds > 0\<close>.
\<close>

definition FeedbackDialog_init :: "pystr \<Rightarrow> int \<Rightarrow> FeedbackDialog" where
  "FeedbackDialog_init summary seconds =
     \<lparr>work_summary = summary,
      timeout_seconds = seconds,
      selected_images_data = [],
      text_widget = \<lparr>plainText = [], placeholderText = feedback_placeholder\<rparr>,
      timeout_timer = (if seconds > 0 then Some (seconds * 1000) else None),
      feedback_submitted = [],
      dialog_code = None,
      shown = []\<rparr>"

subsection \<open>The dialog's handlers\<close>

definition accept :: "FeedbackDialog \<Rightarrow> FeedbackDialog" where
  "accept d = d\<lparr>dialog_code := Some Accepted\<rparr>"

definition reject :: "FeedbackDialog \<Rightarrow> FeedbackDialog" where
  "reject d = d\<lparr>dialog_code := Some Rejected\<rparr>"

definition emit :: "feedback_item list option \<Rightarrow> FeedbackDialog \<Rightarrow> FeedbackDialog" where
  "emit v d = d\<lparr>feedback_submitted := feedback_submitted d @ [v]\<rparr>"

definition handle_timeout :: "FeedbackDialog \<Rightarrow> FeedbackDialog" where
  "handle_timeout d = reject (emit None d)"

text \<open>
  \<^verbatim>\<open>select_image_file_pyside\<close>, for the paths the file picker returned: each file is
  read and kept when Qt can load it; otherwise a warning is shown, or an error box when
  reading raised.
\<close>

definition select_one_file :: "env \<Rightarrow> FeedbackDialog \<Rightarrow> pystr \<Rightarrow> FeedbackDialog" where
  "select_one_file e d file_path =
     (case read_file e file_path of
        Inl ex \<Rightarrow> d\<lparr>shown := shown d @ [critical (path_name file_path) ex]\<rparr>
      | Inr img_bytes \<Rightarrow>
          if loadFromData e img_bytes
          then d\<lparr>selected_images_data := selected_images_data d @
                 [\<lparr>img_data = img_bytes, img_filename = path_name file_path,
                   img_pixmap = Pixmap_loadFromData img_bytes\<rparr>]\<rparr>
          else d\<lparr>shown := shown d @ [warning (path_name file_path)]\<rparr>)"

definition select_image_file_pyside ::
  "env \<Rightarrow> pystr list \<Rightarrow> FeedbackDialog \<Rightarrow> FeedbackDialog" where
  "select_image_file_pyside e file_paths d = foldl (select_one_file e) d file_paths"

text \<open>
  \<^verbatim>\<open>paste_from_clipboard_pyside\<close>: a non-null clipboard image is saved as \<^verbatim>\<open>"PNG"\<close> and
  appended under a name made from the current time; an exception in that block shows an
  error box; no image, or a null one, shows a notice.
\<close>

definition paste_from_clipboard_pyside ::
  "env \<Rightarrow> QClipboard \<Rightarrow> datetime \<Rightarrow> FeedbackDialog \<Rightarrow> FeedbackDialog" where
  "paste_from_clipboard_pyside e clipboard now d =
     (if hasImage clipboard then
        (let qimage = clipboard_image clipboard in
         if \<not> isNull qimage then
           (case save e qimage (str ''PNG'') of
              Inl ex \<Rightarrow> d\<lparr>shown := shown d @ [critical [] ex]\<rparr>
            | Inr img_bytes \<Rightarrow>
                d\<lparr>selected_images_data := selected_images_data d @
                   [\<lparr>img_data = img_bytes, img_filename = clipboard_filename now,
                     img_pixmap = Pixmap_fromImage qimage\<rparr>]\<rparr>)
         else d\<lparr>shown := shown d @ [information]\<rparr>)
      else d\<lparr>shown := shown d @ [information]\<rparr>)"

text \<open>
  \<^verbatim>\<open>clear_all_images_pyside\<close>: with a non-empty list the question box is shown, and
  \<open>reply\<close> is the button the user answers with; with an empty list nothing happens.
\<close>

definition clear_all_images_pyside :: "StandardButton \<Rightarrow> FeedbackDialog \<Rightarrow> FeedbackDialog" where
  "clear_all_images_pyside reply d =
     (if selected_images_data d \<noteq> [] then
        (let d' = d\<lparr>shown := shown d @ [question]\<rparr>
         in if reply = Yes then d'\<lparr>selected_images_data := []\<rparr> else d')
      else d)"

text \<open>
  \<^verbatim>\<open>remove_image_pyside\<close>: \<^verbatim>\<open>del xs[index]\<close> under the guard
  \<^verbatim>\<open>0 <= index < len(xs)\<close>; Python's negative indices never reach the \<^verbatim>\<open>del\<close>.
\<close>

definition remove_image_pyside :: "int \<Rightarrow> FeedbackDialog \<Rightarrow> FeedbackDialog" where
  "remove_image_pyside index d =
     (if 0 \<le> index \<and> index < int (length (selected_images_data d))
      then d\<lparr>selected_images_data :=
               take (nat index) (selected_images_data d)
               @ drop (Suc (nat index)) (selected_images_data d)\<rparr>
      else d)"

text \<open>
  \<^verbatim>\<open>submit_feedback_pyside\<close>. \<open>format_or_PNG\<close> is \<^verbatim>\<open>pil_image.format or "PNG"\<close>
  (\<^verbatim>\<open>None\<close> and the empty string are both false in Python). \<open>image_item\<close> is the body of
  the \<^verbatim>\<open>try\<close>, \<open>image_items\<close> the loop: an image whose bytes PIL cannot open is
  skipped (the \<^verbatim>\<open>except\<close> only prints).
\<close>

definition format_or_PNG :: "pil_image \<Rightarrow> pystr" where
  "format_or_PNG im =
     (case pil_format im of None \<Rightarrow> str ''PNG'' | Some f \<Rightarrow> if f = [] then str ''PNG'' else f)"

definition image_item :: "env \<Rightarrow> selected_image \<Rightarrow> exn + mcp_image_dict" where
  "image_item e img_dict =
     (case Image_open e (img_data img_dict) of
        Inl ex \<Rightarrow> Inl ex
      | Inr pil_image \<Rightarrow>
          Inr \<lparr>dict_type = str ''image'',
               dict_base64_data = b64encode (img_data img_dict),
               dict_format = lower (format_or_PNG pil_image),
               dict_filename = img_filename img_dict\<rparr>)"

fun image_items :: "env \<Rightarrow> selected_image list \<Rightarrow> feedback_item list" where
  "image_items e [] = []"
| "image_items e (img_dict # rest) =
     (case image_item e img_dict of
        Inl ex \<Rightarrow> image_items e rest
      | Inr mcp_image_dict \<Rightarrow> PyDict mcp_image_dict # image_items e rest)"

definition text_items :: "QTextEdit \<Rightarrow> feedback_item list" where
  "text_items w =
     (let text_content = strip (plainText w)
      in if text_content \<noteq> [] \<and> text_content \<noteq> placeholderText w
         then [PyStr text_content] else [])"

definition feedback_items :: "env \<Rightarrow> FeedbackDialog \<Rightarrow> feedback_item list" where
  "feedback_items e d = text_items (text_widget d) @ image_items e (selected_images_data d)"

definition submit_feedback_pyside :: "env \<Rightarrow> FeedbackDialog \<Rightarrow> FeedbackDialog" where
  "submit_feedback_pyside e d = accept (emit (Some (feedback_items e d)) d)"

subsection \<open>The event loop\<close>

text \<open>
  What can happen while \<^verbatim>\<open>exec_()\<close> runs: the user edits the text field, presses one of
  the buttons (with what the file picker, the clipboard, the clock or the question box
  answer), closes the dialog (the cancel button and the window's close button both call
  \<^verbatim>\<open>reject\<close>), or time passes. When the time that passes reaches what is left on the
  timer, the timer fires once and calls \<^verbatim>\<open>handle_timeout\<close>. This is Qt's single-shot
  \<^verbatim>\<open>QTimer\<close>, counted in milliseconds; its interval is a Python integer here, and the
  range Qt allows for it is not modelled.
\<close>

datatype event =
    EditText pystr
  | SelectFiles "pystr list"
  | PasteClipboard QClipboard datetime
  | ClearAll StandardButton
  | RemoveImage int
  | Submit
  | Cancel
  | TimePasses nat

definition time_passes :: "nat \<Rightarrow> FeedbackDialog \<Rightarrow> FeedbackDialog" where
  "time_passes ms d =
     (case timeout_timer d of
        None \<Rightarrow> d
      | Some left \<Rightarrow>
          if left \<le> int ms then handle_timeout (d\<lparr>timeout_timer := None\<rparr>)
          else d\<lparr>timeout_timer := Some (left - int ms)\<rparr>)"

fun handle_event :: "env \<Rightarrow> FeedbackDialog \<Rightarrow> event \<Rightarrow> FeedbackDialog" where
  "handle_event e d (EditText s) = d\<lparr>text_widget := (text_widget d)\<lparr>plainText := s\<rparr>\<rparr>"
| "handle_event e d (SelectFiles file_paths) = select_image_file_pyside e file_paths d"
| "handle_event e d (PasteClipboard clipboard now) = paste_from_clipboard_pyside e clipboard now d"
| "handle_event e d (ClearAll reply) = clear_all_images_pyside reply d"
| "handle_event e d (RemoveImage index) = remove_image_pyside index d"
| "handle_event e d Submit = submit_feedback_pyside e d"
| "handle_event e d Cancel = reject d"
| "handle_event e d (TimePasses ms) = time_passes ms d"

text \<open>
  \<^verbatim>\<open>exec_()\<close>: events are handled until the dialog is closed; what comes after is not
  looked at. When the events end with the dialog still open, the call has not returned.
\<close>

fun dialog_exec :: "env \<Rightarrow> event list \<Rightarrow> FeedbackDialog \<Rightarrow> FeedbackDialog" where
  "dialog_exec e [] d = d"
| "dialog_exec e (ev # evs) d =
     (if dialog_code d \<noteq> None then d else dialog_exec e evs (handle_event e d ev))"

text \<open>
  A blocking call either has not returned (\<open>Pending\<close>) or has returned a value. A Python
  value that may be \<^verbatim>\<open>None\<close> is an \<open>option\<close>.
\<close>

datatype 'a call = Pending | Returned 'a

text \<open>
  \<^verbatim>\<open>show_dialog_pyside\<close>: the slot is connected before \<^verbatim>\<open>exec_()\<close>, so it sees what
  is emitted from then on; it extends \<^verbatim>\<open>result\<close> with every emitted list and ignores an
  emitted \<^verbatim>\<open>None\<close>. The list is returned when the dialog was accepted, \<^verbatim>\<open>None\<close>
  otherwise.
\<close>

definition on_feedback_submitted :: "feedback_item list option list \<Rightarrow> feedback_item list" where
  "on_feedback_submitted emitted =
     concat (map (\<lambda>data. case data of None \<Rightarrow> [] | Some xs \<Rightarrow> xs) emitted)"

definition show_dialog_pyside ::
  "env \<Rightarrow> event list \<Rightarrow> FeedbackDialog \<Rightarrow> feedback_item list option call" where
  "show_dialog_pyside e evs d =
     (let d' = dialog_exec e evs d
      in case dialog_code d' of
           None \<Rightarrow> Pending
         | Some Accepted \<Rightarrow>
             Returned (Some (on_feedback_submitted
               (drop (length (feedback_submitted d)) (feedback_submitted d'))))
         | Some Rejected \<Rightarrow> Returned None)"

text \<open>
  The terminal states of the specification, read off the dialog: it is submitted when it
  was accepted, timed out when \<^verbatim>\<open>handle_timeout\<close> has run (the only place that emits
  \<^verbatim>\<open>None\<close>), cancelled when it was rejected otherwise.
\<close>

datatype dialog_state = Open | Submitted | Cancelled | TimedOut

definition state_of :: "FeedbackDialog \<Rightarrow> dialog_state" where
  "state_of d =
     (case dialog_code d of
        None \<Rightarrow> Open
      | Some Accepted \<Rightarrow> Submitted
      | Some Rejected \<Rightarrow> if None \<in> set (feedback_submitted d) then TimedOut else Cancelled)"

subsection \<open>The tools\<close>

text \<open>
  Modelled from the spec: the transport image record \<^verbatim>\<open>MCPImage\<close> of the FastMCP library,
  which is not among the sources. The specification gives it as
  \<^verbatim>\<open>{format: string, base64_data: string, filename?: string}\<close>, and the docstring of
  \<^verbatim>\<open>pick_image\<close> as a typed dictionary with these keys; constructing one from three
  strings does not fail.
\<close>

record MCPImage =
  base64_data :: pystr
  format :: pystr
  filename :: pystr

definition MCPImage_new :: "pystr \<Rightarrow> pystr \<Rightarrow> pystr \<Rightarrow> exn + MCPImage" where
  "MCPImage_new b f n = Inr \<lparr>base64_data = b, format = f, filename = n\<rparr>"

datatype tool_item = TextItem pystr | ImageItem MCPImage

text \<open>
  The loop of \<^verbatim>\<open>collect_feedback\<close>: a string is kept, a dictionary of type
  \<^verbatim>\<open>"image"\<close> becomes an \<^verbatim>\<open>MCPImage\<close> (and is dropped if the constructor raises),
  anything else is dropped.
\<close>

fun processed_feedback :: "feedback_item list \<Rightarrow> tool_item list" where
  "processed_feedback [] = []"
| "processed_feedback (PyStr s # rest) = TextItem s # processed_feedback rest"
| "processed_feedback (PyDict item # rest) =
     (if dict_type item = str ''image'' then
        (case MCPImage_new (dict_base64_data item) (dict_format item) (dict_filename item) of
           Inl ex \<Rightarrow> processed_feedback rest
         | Inr mcp_img \<Rightarrow> ImageItem mcp_img # processed_feedback rest)
      else processed_feedback rest)"

text \<open>
  \<^verbatim>\<open>collect_feedback\<close>. Its docstring leaves open whether \<^verbatim>\<open>None\<close> or an empty list
  comes back after a timeout or a cancellation, so the returned value is an \<open>option\<close>.
\<close>

definition collect_feedback ::
  "env \<Rightarrow> pystr \<Rightarrow> int \<Rightarrow> event list \<Rightarrow> tool_item list option call" where
  "collect_feedback e summary seconds evs =
     (case show_dialog_pyside e evs (FeedbackDialog_init summary seconds) of
        Pending \<Rightarrow> Pending
      | Returned None \<Rightarrow> Returned (Some [])
      | Returned (Some feedback_data) \<Rightarrow>
          if feedback_data = [] then Returned (Some [])
          else Returned (Some (processed_feedback feedback_data)))"

text \<open>
  \<^verbatim>\<open>pick_image\<close>. \<open>clicked\<close> is the button of the source prompt that was pressed,
  \<open>file_path\<close> what the file picker returned (empty when it was dismissed). The result
  is the message boxes shown and what the function returns or raises.
  \<open>pick_image_result\<close> is the end of the function, from \<^verbatim>\<open>if img_bytes:\<close> on
  (\<^verbatim>\<open>None\<close> and empty bytes are both false).
\<close>

datatype button = file_button | paste_button | cancel_button | no_button

definition pick_image_result ::
  "button \<Rightarrow> QMessageBox list \<Rightarrow> bytes option \<Rightarrow> pystr \<Rightarrow> pystr
     \<Rightarrow> QMessageBox list \<times> (exn + MCPImage)" where
  "pick_image_result clicked boxes img_bytes name img_format =
     (let no_image =
            ((if clicked \<noteq> cancel_button then boxes @ [information] else boxes),
             MCPImage_new [] [] (str ''no_image_selected_or_error''))
      in case img_bytes of
           None \<Rightarrow> no_image
         | Some b \<Rightarrow>
             if b \<noteq> [] then (boxes, MCPImage_new (b64encode b) (lower img_format) name)
             else no_image)"

definition pick_image ::
  "env \<Rightarrow> button \<Rightarrow> pystr \<Rightarrow> QClipboard \<Rightarrow> datetime \<Rightarrow> QMessageBox list \<times> (exn + MCPImage)" where
  "pick_image e clicked file_path clipboard now =
     (case clicked of
        file_button \<Rightarrow>
          if file_path \<noteq> [] then
            (case read_file e file_path of
               Inl ex \<Rightarrow> ([critical (path_name file_path) ex],
                          MCPImage_new [] [] (str ''error_loading_file''))
             | Inr img_bytes \<Rightarrow>
                 (case Image_open e img_bytes of
                    Inl ex \<Rightarrow> ([critical (path_name file_path) ex],
                               MCPImage_new [] [] (str ''error_loading_file''))
                  | Inr pil_img \<Rightarrow>
                      pick_image_result clicked [] (Some img_bytes) (path_name file_path)
                        (format_or_PNG pil_img)))
          else pick_image_result clicked [] None (str ''image'') (str ''png'')
      | paste_button \<Rightarrow>
          if hasImage clipboard then
            (if \<not> isNull (clipboard_image clipboard) then
               (case save e (clipboard_image clipboard) (str ''PNG'') of
                  Inl ex \<Rightarrow> ([critical [] ex],
                             MCPImage_new [] [] (str ''error_processing_clipboard''))
                | Inr img_bytes \<Rightarrow>
                    pick_image_result clicked [] (Some img_bytes) (clipboard_filename now)
                      (str ''png''))
             else pick_image_result clicked [information] None (str ''image'') (str ''png''))
          else pick_image_result clicked [information] None (str ''image'') (str ''png'')
      | cancel_button \<Rightarrow> ([], MCPImage_new [] [] (str ''cancelled_by_user''))
      | no_button \<Rightarrow> pick_image_result clicked [] None (str ''image'') (str ''png''))"

text \<open>
  \<^verbatim>\<open>get_image_info\<close>. \<open>str_format\<close> and \<open>str_size\<close> are what the f-string prints for
  \<^verbatim>\<open>pil_img.format\<close> and for the pair \<^verbatim>\<open>pil_img.size\<close>. The two \<^verbatim>\<open>except\<close> clauses are
  \<open>get_image_info_except\<close>: they catch by the class of the exception, whichever
  statement of the \<^verbatim>\<open>try\<close> raised it.
\<close>

definition str_format :: "pystr option \<Rightarrow> pystr" where
  "str_format f = (case f of None \<Rightarrow> str ''None'' | Some s \<Rightarrow> s)"

definition str_size :: "nat \<times> nat \<Rightarrow> pystr" where
  "str_size wh = str ''('' @ str_nat (fst wh) @ str '', '' @ str_nat (snd wh) @ str '')''"

definition get_image_info_except :: "pystr \<Rightarrow> exn \<Rightarrow> pystr" where
  "get_image_info_except image_path ex =
     (case ex of
        FileNotFoundError \<Rightarrow> str ''Error: Image file not found at '' @ image_path
      | Exception msg \<Rightarrow> str ''Error processing image '' @ image_path @ str '': '' @ msg)"

definition get_image_info :: "env \<Rightarrow> pystr \<Rightarrow> exn + pystr" where
  "get_image_info e image_path =
     (case read_file e image_path of
        Inl ex \<Rightarrow> Inr (get_image_info_except image_path ex)
      | Inr img_bytes \<Rightarrow>
          (case Image_open e img_bytes of
             Inl ex \<Rightarrow> Inr (get_image_info_except image_path ex)
           | Inr pil_img \<Rightarrow>
               Inr (str ''Image format: '' @ str_format (pil_format pil_img)
                    @ str '', size: '' @ str_size (pil_size pil_img))))"

subsection \<open>Predicates of the statements\<close>

text \<open>
  A decimal digit; a date and time whose fields are in the ranges of a clock reading
  (with a four-digit year); \<^verbatim>\<open>isinstance(item, str)\<close> on an emitted item; the
  milliseconds that pass in a list of events; the two events by which the user closes the
  dialog.
\<close>

definition isdigit :: "nat \<Rightarrow> bool" where
  "isdigit c \<longleftrightarrow> 48 \<le> c \<and> c \<le> 57"

definition valid_datetime :: "datetime \<Rightarrow> bool" where
  "valid_datetime t \<longleftrightarrow>
     1000 \<le> year t \<and> year t \<le> 9999 \<and> 1 \<le> month t \<and> month t \<le> 12 \<and> 1 \<le> day t \<and> day t \<le> 31
     \<and> hour t \<le> 23 \<and> minute t \<le> 59 \<and> second t \<le> 59"


fun elapsed :: "event list \<Rightarrow> nat" where
  "elapsed [] = 0"
| "elapsed (TimePasses ms # evs) = ms + elapsed evs"
| "elapsed (ev # evs) = elapsed evs"

definition user_closes :: "event \<Rightarrow> bool" where
  "user_closes ev \<longleftrightarrow> ev = Submit \<or> ev = Cancel"

text \<open>
  Two invariants of the event loop: while the dialog is open nothing has been emitted;
  a dialog without a timer never emits \<^verbatim>\<open>None\<close>.
\<close>

definition open_inv :: "FeedbackDialog \<Rightarrow> bool" where
  "open_inv d \<longleftrightarrow> (dialog_code d = None \<longrightarrow> feedback_submitted d = [])"

definition no_timer_inv :: "FeedbackDialog \<Rightarrow> bool" where
  "no_timer_inv d \<longleftrightarrow> timeout_timer d = None \<and> None \<notin> set (feedback_submitted d)"

subsection \<open>Concrete inputs\<close>

text \<open>
  An environment with one readable image file (the first bytes of a PNG signature stand
  for its content, decoded as a 10 by 20 PNG), one file that Qt loads and PIL rejects,
  and no other file.
\<close>

definition png_bytes :: bytes where
  "png_bytes = [137, 80, 78, 71]"

definition test_env :: env where
  "test_env =
     \<lparr>read_file = (\<lambda>p. if p = str ''/tmp/shot.png'' then Inr png_bytes
                      else if p = str ''/tmp/broken.png'' then Inr [0]
                      else Inl FileNotFoundError),
      Image_open = (\<lambda>b. if b = png_bytes
                       then Inr \<lparr>pil_format = Some (str ''PNG''), pil_size = (10, 20)\<rparr>
                       else Inl (Exception (str ''cannot identify image file''))),
      loadFromData = (\<lambda>b. b = png_bytes \<or> b = [0]),
      save = (\<lambda>q f. Inr png_bytes)\<rparr>"

section \<open>Properties\<close>

subsection \<open>Base64 round trip\<close>












subsection \<open>Digits and time stamps\<close>

lemma str_nat_digits: "list_all isdigit (str_nat n)"
proof (induction n rule: str_nat.induct)
  case (1 n)
  show ?case
  proof (cases "n < 10")
    case True
    then show ?thesis by (subst str_nat.simps) (simp add: isdigit_def)
  next
    case False
    have "n mod 10 < 10" by simp
    then have "isdigit (48 + n mod 10)" unfolding isdigit_def by linarith
    with False 1 show ?thesis by (subst str_nat.simps) simp
  qed
qed

lemma str_nat_length_le: "n < 10 ^ k \<Longrightarrow> 0 < k \<Longrightarrow> length (str_nat n) \<le> k"
proof (induction n arbitrary: k rule: str_nat.induct)
  case (1 n)
  show ?case
  proof (cases "n < 10")
    case True
    with 1(3) show ?thesis by (subst str_nat.simps) simp
  next
    case False
    obtain j where k: "k = Suc j" using 1(3) by (cases k) auto
    from False 1(2) have j: "0 < j" unfolding k by (cases j) auto
    from 1(2) have "n div 10 < 10 ^ j" unfolding k by (simp add: less_mult_imp_div_less mult.commute)
    with 1(1) [OF False _ j] have "length (str_nat (n div 10)) \<le> j" by simp
    with False show ?thesis unfolding k by (subst str_nat.simps) simp
  qed
qed

lemma str_nat_length_ge: "10 ^ k \<le> n \<Longrightarrow> k < length (str_nat n)"
proof (induction n arbitrary: k rule: str_nat.induct)
  case (1 n)
  show ?case
  proof (cases "n < 10")
    case True
    with 1(2) have "(10::nat) ^ k < 10 ^ 1" by simp
    then have "k = 0" using power_less_imp_less_exp [of 10 k 1] by simp
    with True show ?thesis by (subst str_nat.simps) simp
  next
    case False
    show ?thesis
    proof (cases k)
      case 0
      with False show ?thesis by (subst str_nat.simps) simp
    next
      case (Suc j)
      with 1(2) have "10 ^ j \<le> n div 10" by (simp add: less_eq_div_iff_mult_less_eq mult.commute)
      with 1(1) [OF False] have "j < length (str_nat (n div 10))" by simp
      with False Suc show ?thesis by (subst str_nat.simps) simp
    qed
  qed
qed

lemma zfill_digits: "list_all isdigit s \<Longrightarrow> list_all isdigit (zfill w s)"
  by (auto simp: zfill_def list_all_iff isdigit_def)

lemma zfill_length: "length s \<le> w \<Longrightarrow> length (zfill w s) = w"
  by (simp add: zfill_def)

lemma zfill2_str_nat: "n < 100 \<Longrightarrow> length (zfill 2 (str_nat n)) = 2"
  using str_nat_length_le [of n 2] by (simp add: zfill_length)

lemma zfill4_str_nat: "n < 10000 \<Longrightarrow> length (zfill 4 (str_nat n)) = 4"
  using str_nat_length_le [of n 4] by (simp add: zfill_length)

lemma zfill4_year: "1000 \<le> n \<Longrightarrow> zfill 4 (str_nat n) = str_nat n"
  using str_nat_length_ge [of 3 n] by (simp add: zfill_def)

lemma strftime_form:
  assumes "valid_datetime t"
  shows "length (strftime t) = 15" "strftime t ! 8 = 95"
    "list_all isdigit (take 8 (strftime t))" "list_all isdigit (drop 9 (strftime t))"
    "take 4 (strftime t) = str_nat (year t)"
proof -
  let ?Y = "zfill 4 (str_nat (year t))" and ?M = "zfill 2 (str_nat (month t))"
  let ?D = "zfill 2 (str_nat (day t))" and ?h = "zfill 2 (str_nat (hour t))"
  let ?m = "zfill 2 (str_nat (minute t))" and ?s = "zfill 2 (str_nat (second t))"
  define A where "A = ?Y @ ?M @ ?D"
  define B where "B = ?h @ ?m @ ?s"
  have len: "length ?Y = 4" "length ?M = 2" "length ?D = 2" "length ?h = 2" "length ?m = 2"
    "length ?s = 2"
    using assms by (simp_all add: valid_datetime_def zfill2_str_nat zfill4_str_nat)
  have dig: "list_all isdigit A" "list_all isdigit B"
    by (simp_all add: A_def B_def zfill_digits str_nat_digits)
  have split: "strftime t = A @ 95 # B"
    by (simp add: strftime_def A_def B_def)
  have lA: "length A = 8" and lB: "length B = 6" using len by (simp_all add: A_def B_def)
  show "length (strftime t) = 15" using lA lB by (simp add: split)
  show "strftime t ! 8 = 95" using nth_append_length [of A 95 B] by (simp add: split lA)
  show "list_all isdigit (take 8 (strftime t))" using lA dig by (simp add: split)
  show "list_all isdigit (drop 9 (strftime t))" using lA dig by (simp add: split)
  have "take 4 (strftime t) = ?Y" using len by (simp add: strftime_def)
  then show "take 4 (strftime t) = str_nat (year t)"
    using assms by (simp add: zfill4_year valid_datetime_def)
qed

subsection \<open>Emitted items\<close>




lemma b64encode_nonempty: "bs \<noteq> [] \<Longrightarrow> b64encode bs \<noteq> []"
  by (induction bs rule: b64encode.induct) simp_all




subsection \<open>The event loop\<close>

lemma dialog_exec_closed: "dialog_code d \<noteq> None \<Longrightarrow> dialog_exec e evs d = d"
  by (cases evs) simp_all

lemma dialog_exec_append:
  "dialog_exec e (xs @ ys) d = dialog_exec e ys (dialog_exec e xs d)"
proof (induction xs arbitrary: d)
  case Nil
  show ?case by simp
next
  case (Cons x xs)
  show ?case
  proof (cases "dialog_code d = None")
    case True
    with Cons show ?thesis by simp
  next
    case False
    then show ?thesis by (simp add: dialog_exec_closed)
  qed
qed

lemma select_image_file_frame:
  "dialog_code (select_image_file_pyside e ps d) = dialog_code d"
  "feedback_submitted (select_image_file_pyside e ps d) = feedback_submitted d"
  "timeout_timer (select_image_file_pyside e ps d) = timeout_timer d"
  "text_widget (select_image_file_pyside e ps d) = text_widget d"
  unfolding select_image_file_pyside_def
  by (induction ps arbitrary: d; simp add: select_one_file_def split: sum.splits)+

lemma paste_from_clipboard_frame:
  "dialog_code (paste_from_clipboard_pyside e cb now d) = dialog_code d"
  "feedback_submitted (paste_from_clipboard_pyside e cb now d) = feedback_submitted d"
  "timeout_timer (paste_from_clipboard_pyside e cb now d) = timeout_timer d"
  by (simp_all add: paste_from_clipboard_pyside_def Let_def split: sum.splits)

lemma clear_all_images_frame:
  "dialog_code (clear_all_images_pyside r d) = dialog_code d"
  "feedback_submitted (clear_all_images_pyside r d) = feedback_submitted d"
  "timeout_timer (clear_all_images_pyside r d) = timeout_timer d"
  by (simp_all add: clear_all_images_pyside_def Let_def)

lemma remove_image_frame:
  "dialog_code (remove_image_pyside i d) = dialog_code d"
  "feedback_submitted (remove_image_pyside i d) = feedback_submitted d"
  "timeout_timer (remove_image_pyside i d) = timeout_timer d"
  by (simp_all add: remove_image_pyside_def)

lemmas handler_frame =
  select_image_file_frame paste_from_clipboard_frame clear_all_images_frame remove_image_frame

lemma handle_event_open_inv: "open_inv d \<Longrightarrow> open_inv (handle_event e d ev)"
  by (cases ev)
    (auto simp: open_inv_def handler_frame submit_feedback_pyside_def accept_def reject_def
      emit_def time_passes_def handle_timeout_def split: option.splits)

lemma dialog_exec_open_inv: "open_inv d \<Longrightarrow> open_inv (dialog_exec e evs d)"
  by (induction evs arbitrary: d) (auto simp: handle_event_open_inv)

lemma init_open_inv: "open_inv (FeedbackDialog_init s t)"
  by (simp add: open_inv_def FeedbackDialog_init_def)

lemma handle_event_no_timer_inv: "no_timer_inv d \<Longrightarrow> no_timer_inv (handle_event e d ev)"
  by (cases ev)
    (auto simp: no_timer_inv_def handler_frame submit_feedback_pyside_def accept_def reject_def
      emit_def time_passes_def)

lemma dialog_exec_no_timer_inv: "no_timer_inv d \<Longrightarrow> no_timer_inv (dialog_exec e evs d)"
  by (induction evs arbitrary: d) (auto simp: handle_event_no_timer_inv)

lemma timer_fires:
  assumes "dialog_code d = None" "timeout_timer d = Some left" "0 < left"
    and "left \<le> int (elapsed pre)" "\<forall>ev \<in> set pre. \<not> user_closes ev"
  shows "dialog_code (dialog_exec e pre d) = Some Rejected
       \<and> None \<in> set (feedback_submitted (dialog_exec e pre d))"
  using assms
proof (induction pre arbitrary: d left)
  case Nil
  then show ?case by simp
next
  case (Cons ev pre)
  show ?case
  proof (cases ev)
    case (TimePasses ms)
    show ?thesis
    proof (cases "left \<le> int ms")
      case True
      then have "dialog_code (handle_event e d ev) = Some Rejected
        \<and> None \<in> set (feedback_submitted (handle_event e d ev))"
        using Cons.prems TimePasses
        by (simp add: time_passes_def handle_timeout_def reject_def emit_def)
      then show ?thesis using Cons.prems(1) by (simp add: dialog_exec_closed)
    next
      case False
      then have d': "dialog_code (handle_event e d ev) = None"
        "timeout_timer (handle_event e d ev) = Some (left - int ms)" "0 < left - int ms"
        using Cons.prems TimePasses by (simp_all add: time_passes_def)
      have "left - int ms \<le> int (elapsed pre)" using Cons.prems(4) TimePasses by simp
      from Cons.IH [OF d' this] Cons.prems(1,5) show ?thesis by simp
    qed
  next
    case Submit
    with Cons.prems(5) show ?thesis by (simp add: user_closes_def)
  next
    case Cancel
    with Cons.prems(5) show ?thesis by (simp add: user_closes_def)
  next
    case (EditText s)
    then have d': "dialog_code (handle_event e d ev) = None"
      "timeout_timer (handle_event e d ev) = Some left"
      using Cons.prems by simp_all
    have "left \<le> int (elapsed pre)" using Cons.prems(4) EditText by simp
    from Cons.IH [OF d' Cons.prems(3) this] Cons.prems(1,5) show ?thesis by simp
  next
    case (SelectFiles ps)
    then have d': "dialog_code (handle_event e d ev) = None"
      "timeout_timer (handle_event e d ev) = Some left"
      using Cons.prems by (simp_all add: handler_frame)
    have "left \<le> int (elapsed pre)" using Cons.prems(4) SelectFiles by simp
    from Cons.IH [OF d' Cons.prems(3) this] Cons.prems(1,5) show ?thesis by simp
  next
    case (PasteClipboard cb now)
    then have d': "dialog_code (handle_event e d ev) = None"
      "timeout_timer (handle_event e d ev) = Some left"
      using Cons.prems by (simp_all add: handler_frame)
    have "left \<le> int (elapsed pre)" using Cons.prems(4) PasteClipboard by simp
    from Cons.IH [OF d' Cons.prems(3) this] Cons.prems(1,5) show ?thesis by simp
  next
    case (ClearAll r)
    then have d': "dialog_code (handle_event e d ev) = None"
      "timeout_timer (handle_event e d ev) = Some left"
      using Cons.prems by (simp_all add: handler_frame)
    have "left \<le> int (elapsed pre)" using Cons.prems(4) ClearAll by simp
    from Cons.IH [OF d' Cons.prems(3) this] Cons.prems(1,5) show ?thesis by simp
  next
    case (RemoveImage i)
    then have d': "dialog_code (handle_event e d ev) = None"
      "timeout_timer (handle_event e d ev) = Some left"
      using Cons.prems by (simp_all add: handler_frame)
    have "left \<le> int (elapsed pre)" using Cons.prems(4) RemoveImage by simp
    from Cons.IH [OF d' Cons.prems(3) this] Cons.prems(1,5) show ?thesis by simp
  qed
qed

lemma collect_feedback_submit:
  assumes "dialog_code (dialog_exec e pre (FeedbackDialog_init s t)) = None"
  shows "collect_feedback e s t (pre @ Submit # post) =
    Returned (Some (processed_feedback (feedback_items e (dialog_exec e pre (FeedbackDialog_init s t)))))"
proof -
  let ?d = "dialog_exec e pre (FeedbackDialog_init s t)"
  have "open_inv ?d" by (simp add: dialog_exec_open_inv init_open_inv)
  with assms have nil: "feedback_submitted ?d = []" by (simp add: open_inv_def)
  have "dialog_exec e (pre @ Submit # post) (FeedbackDialog_init s t) = submit_feedback_pyside e ?d"
    using assms
    by (simp add: dialog_exec_append dialog_exec_closed submit_feedback_pyside_def accept_def emit_def)
  then have "show_dialog_pyside e (pre @ Submit # post) (FeedbackDialog_init s t) =
      Returned (Some (feedback_items e ?d))"
    using nil
    by (simp add: show_dialog_pyside_def Let_def submit_feedback_pyside_def accept_def emit_def
        on_feedback_submitted_def FeedbackDialog_init_def)
  then show ?thesis by (simp add: collect_feedback_def)
qed

subsection \<open>From a selected file to the returned record\<close>









subsection \<open>Unfolding the definitions on concrete inputs\<close>

lemmas eval_defs =
  collect_feedback_def show_dialog_pyside_def FeedbackDialog_init_def state_of_def
  submit_feedback_pyside_def feedback_items_def text_items_def image_item_def
  on_feedback_submitted_def accept_def reject_def emit_def handle_timeout_def time_passes_def
  select_image_file_pyside_def select_one_file_def paste_from_clipboard_pyside_def
  clear_all_images_pyside_def remove_image_pyside_def MCPImage_new_def format_or_PNG_def
  test_env_def png_bytes_def strip_def isspace_def lower_def lower_char_def str_def Let_def
  feedback_placeholder_def

section \<open>The claims\<close>

text \<open>
  Claim C1. Whenever \<^verbatim>\<open>collect_feedback\<close> returns, it returns a list and never
  \<^verbatim>\<open>None\<close>: it returns (a list) as soon as the dialog is closed; the list is empty when
  the dialog was cancelled or timed out; and it is empty when the user submits with a
  text that is empty after trimming (or is the placeholder) and with no image selected.
\<close>

theorem collect_feedback_returns_list:
  "collect_feedback e s t evs \<noteq> Returned None
   \<and> (dialog_code (dialog_exec e evs (FeedbackDialog_init s t)) \<noteq> None \<longrightarrow>
        (\<exists>items. collect_feedback e s t evs = Returned (Some items)))
   \<and> (state_of (dialog_exec e evs (FeedbackDialog_init s t)) = Cancelled
        \<or> state_of (dialog_exec e evs (FeedbackDialog_init s t)) = TimedOut \<longrightarrow>
        collect_feedback e s t evs = Returned (Some []))
   \<and> (dialog_code (dialog_exec e pre (FeedbackDialog_init s t)) = None
        \<and> (strip (plainText (text_widget (dialog_exec e pre (FeedbackDialog_init s t)))) = []
           \<or> strip (plainText (text_widget (dialog_exec e pre (FeedbackDialog_init s t))))
              = placeholderText (text_widget (dialog_exec e pre (FeedbackDialog_init s t))))
        \<and> selected_images_data (dialog_exec e pre (FeedbackDialog_init s t)) = [] \<longrightarrow>
        state_of (dialog_exec e (pre @ Submit # post) (FeedbackDialog_init s t)) = Submitted
        \<and> collect_feedback e s t (pre @ Submit # post) = Returned (Some []))"
proof -
  let ?d0 = "FeedbackDialog_init s t"
  have never_none: "collect_feedback e s t evs \<noteq> Returned None"
    by (simp add: collect_feedback_def split: call.splits option.splits)
  have closed: "\<exists>items. collect_feedback e s t evs = Returned (Some items)"
    if "dialog_code (dialog_exec e evs ?d0) \<noteq> None"
    using that
    by (auto simp: collect_feedback_def show_dialog_pyside_def Let_def
        split: option.splits DialogCode.splits)
  have rejected: "collect_feedback e s t evs = Returned (Some [])"
    if "state_of (dialog_exec e evs ?d0) = Cancelled \<or> state_of (dialog_exec e evs ?d0) = TimedOut"
    using that
    by (auto simp: collect_feedback_def show_dialog_pyside_def state_of_def Let_def
        split: option.splits DialogCode.splits if_splits)
  have empty: "state_of (dialog_exec e (pre @ Submit # post) ?d0) = Submitted
      \<and> collect_feedback e s t (pre @ Submit # post) = Returned (Some [])"
    if opn: "dialog_code (dialog_exec e pre ?d0) = None"
      and tx: "strip (plainText (text_widget (dialog_exec e pre ?d0))) = []
           \<or> strip (plainText (text_widget (dialog_exec e pre ?d0)))
              = placeholderText (text_widget (dialog_exec e pre ?d0))"
      and img: "selected_images_data (dialog_exec e pre ?d0) = []"
  proof -
    have "feedback_items e (dialog_exec e pre ?d0) = []"
      using tx img by (auto simp: feedback_items_def text_items_def Let_def)
    then have "collect_feedback e s t (pre @ Submit # post) = Returned (Some [])"
      using collect_feedback_submit [OF opn] by simp
    moreover have "state_of (dialog_exec e (pre @ Submit # post) ?d0) = Submitted"
      using opn
      by (simp add: dialog_exec_append dialog_exec_closed submit_feedback_pyside_def accept_def
          emit_def state_of_def)
    ultimately show ?thesis by simp
  qed
  from never_none closed rejected empty show ?thesis by blast
qed

theorem collect_feedback_returns_list_witness:
  "collect_feedback test_env [] 300 [Cancel] = Returned (Some [])
   \<and> collect_feedback test_env [] 300 [TimePasses 300000] = Returned (Some [])
   \<and> collect_feedback test_env [] 300 [EditText (str ''  ''), Submit, Cancel] = Returned (Some [])
   \<and> state_of (dialog_exec test_env [EditText (str ''  ''), Submit, Cancel]
        (FeedbackDialog_init [] 300)) = Submitted"
  using collect_feedback_returns_list
    [where e = test_env and s = "[]" and t = 300 and evs = "[Cancel]"
       and pre = "[EditText (str ''  '')]" and post = "[Cancel]"]
    collect_feedback_returns_list
    [where e = test_env and s = "[]" and t = 300 and evs = "[TimePasses 300000]"
       and pre = "[]" and post = "[]"]
  by (simp add: eval_defs)



text \<open>
  Claim C3. A dialog created with \<^verbatim>\<open>timeout_seconds <= 0\<close> has no timer and is never
  timed out, whatever happens and however much time passes. A dialog created with
  \<^verbatim>\<open>timeout_seconds = t > 0\<close> is timed out once \<open>1000 * t\<close> milliseconds have passed
  with neither submit nor cancel before, whatever comes after; \<^verbatim>\<open>collect_feedback\<close>
  then returns the empty list.
\<close>

theorem timeout_only_with_positive_duration:
  "(t \<le> 0 \<longrightarrow>
      timeout_timer (FeedbackDialog_init s t) = None
      \<and> state_of (dialog_exec e evs (FeedbackDialog_init s t)) \<noteq> TimedOut)
   \<and> (0 < t \<and> (\<forall>ev \<in> set pre. \<not> user_closes ev) \<and> 1000 * t \<le> int (elapsed pre) \<longrightarrow>
        state_of (dialog_exec e (pre @ post) (FeedbackDialog_init s t)) = TimedOut
        \<and> collect_feedback e s t (pre @ post) = Returned (Some []))"
proof -
  let ?d0 = "FeedbackDialog_init s t"
  have off: "timeout_timer ?d0 = None \<and> state_of (dialog_exec e evs ?d0) \<noteq> TimedOut" if "t \<le> 0"
  proof -
    from that have "no_timer_inv ?d0"
      by (simp add: no_timer_inv_def FeedbackDialog_init_def)
    then have "no_timer_inv (dialog_exec e evs ?d0)" by (rule dialog_exec_no_timer_inv)
    then have "state_of (dialog_exec e evs ?d0) \<noteq> TimedOut"
      by (simp add: no_timer_inv_def state_of_def split: option.splits DialogCode.splits)
    with that show ?thesis by (simp add: FeedbackDialog_init_def)
  qed
  have on: "state_of (dialog_exec e (pre @ post) ?d0) = TimedOut
        \<and> collect_feedback e s t (pre @ post) = Returned (Some [])"
    if t: "0 < t" and quiet: "\<forall>ev \<in> set pre. \<not> user_closes ev"
      and late: "1000 * t \<le> int (elapsed pre)"
  proof -
    have "dialog_code ?d0 = None" "timeout_timer ?d0 = Some (t * 1000)" "0 < t * 1000"
      using t by (simp_all add: FeedbackDialog_init_def)
    moreover have "t * 1000 \<le> int (elapsed pre)" using late by simp
    ultimately have fired: "dialog_code (dialog_exec e pre ?d0) = Some Rejected
        \<and> None \<in> set (feedback_submitted (dialog_exec e pre ?d0))"
      using quiet by (rule timer_fires)
    then have same: "dialog_exec e (pre @ post) ?d0 = dialog_exec e pre ?d0"
      by (simp add: dialog_exec_append dialog_exec_closed)
    from fired have "state_of (dialog_exec e pre ?d0) = TimedOut"
      by (simp add: state_of_def)
    moreover from fired have "collect_feedback e s t (pre @ post) = Returned (Some [])"
      by (simp add: collect_feedback_def show_dialog_pyside_def same)
    ultimately show ?thesis by (simp add: same)
  qed
  from off on show ?thesis by blast
qed

theorem timeout_only_with_positive_duration_witness:
  "state_of (dialog_exec test_env [TimePasses 1000000000] (FeedbackDialog_init [] 0)) = Open
   \<and> state_of (dialog_exec test_env
        [EditText (str ''late''), TimePasses 3000, TimePasses 2000, Submit]
        (FeedbackDialog_init [] 5)) = TimedOut
   \<and> collect_feedback test_env [] 5
        [EditText (str ''late''), TimePasses 3000, TimePasses 2000, Submit] = Returned (Some [])"
  using timeout_only_with_positive_duration
    [where e = test_env and s = "[]" and t = 0 and evs = "[TimePasses 1000000000]"
       and pre = "[]" and post = "[]"]
    timeout_only_with_positive_duration
    [where e = test_env and s = "[]" and t = 5 and evs = "[]"
       and pre = "[EditText (str ''late''), TimePasses 3000, TimePasses 2000]"
       and post = "[Submit]"]
  by (simp add: eval_defs user_closes_def)



text \<open>
  Claim C5. \<^verbatim>\<open>pick_image\<close> always returns a record and never raises. The record has
  an empty payload exactly when no image was acquired, and then its format is empty and
  its filename is one of four tags: \<^verbatim>\<open>cancelled_by_user\<close> after a cancellation,
  \<^verbatim>\<open>error_loading_file\<close> when reading or decoding the chosen file fails,
  \<^verbatim>\<open>error_processing_clipboard\<close> when saving the clipboard image fails, and
  \<^verbatim>\<open>no_image_selected_or_error\<close> when there is no image (no file chosen, no image or a null
  image on the clipboard, no button pressed). A record with a payload carries the Base64
  encoding of non-empty bytes.
\<close>

theorem pick_image_never_raises:
  "(\<exists>r. snd (pick_image e clicked file_path cb now) = Inr r
       \<and> (base64_data r = [] \<longrightarrow>
            format r = []
            \<and> filename r \<in> {str ''cancelled_by_user'', str ''error_loading_file'',
                 str ''error_processing_clipboard'', str ''no_image_selected_or_error''})
       \<and> (base64_data r \<noteq> [] \<longrightarrow>
            (\<exists>b. b \<noteq> [] \<and> base64_data r = b64encode b)))
   \<and> (clicked = cancel_button \<longrightarrow>
        snd (pick_image e clicked file_path cb now) =
          Inr \<lparr>base64_data = [], format = [], filename = str ''cancelled_by_user''\<rparr>)
   \<and> (clicked = file_button \<and> file_path \<noteq> []
        \<and> ((\<exists>ex. read_file e file_path = Inl ex)
           \<or> (\<exists>b ex. read_file e file_path = Inr b \<and> Image_open e b = Inl ex)) \<longrightarrow>
        snd (pick_image e clicked file_path cb now) =
          Inr \<lparr>base64_data = [], format = [], filename = str ''error_loading_file''\<rparr>)
   \<and> (clicked = paste_button \<and> hasImage cb \<and> \<not> isNull (clipboard_image cb)
        \<and> (\<exists>ex. save e (clipboard_image cb) (str ''PNG'') = Inl ex) \<longrightarrow>
        snd (pick_image e clicked file_path cb now) =
          Inr \<lparr>base64_data = [], format = [], filename = str ''error_processing_clipboard''\<rparr>)
   \<and> ((clicked = file_button \<and> file_path = [])
        \<or> (clicked = paste_button \<and> (\<not> hasImage cb \<or> isNull (clipboard_image cb)))
        \<or> clicked = no_button \<longrightarrow>
        snd (pick_image e clicked file_path cb now) =
          Inr \<lparr>base64_data = [], format = [], filename = str ''no_image_selected_or_error''\<rparr>)"
proof -
  have tags: "str ''cancelled_by_user'' \<noteq> []" by (simp add: str_def)
  have total: "\<exists>r. snd (pick_image e clicked file_path cb now) = Inr r
       \<and> (base64_data r = [] \<longrightarrow>
            format r = []
            \<and> filename r \<in> {str ''cancelled_by_user'', str ''error_loading_file'',
                 str ''error_processing_clipboard'', str ''no_image_selected_or_error''})
       \<and> (base64_data r \<noteq> [] \<longrightarrow> (\<exists>b. b \<noteq> [] \<and> base64_data r = b64encode b))"
    by (cases clicked)
      (auto simp: pick_image_def pick_image_result_def MCPImage_new_def Let_def
        b64encode_nonempty split: sum.splits option.splits)
  have cancel: "clicked = cancel_button \<longrightarrow>
        snd (pick_image e clicked file_path cb now) =
          Inr \<lparr>base64_data = [], format = [], filename = str ''cancelled_by_user''\<rparr>"
    by (simp add: pick_image_def MCPImage_new_def)
  have load: "clicked = file_button \<and> file_path \<noteq> []
        \<and> ((\<exists>ex. read_file e file_path = Inl ex)
           \<or> (\<exists>b ex. read_file e file_path = Inr b \<and> Image_open e b = Inl ex)) \<longrightarrow>
        snd (pick_image e clicked file_path cb now) =
          Inr \<lparr>base64_data = [], format = [], filename = str ''error_loading_file''\<rparr>"
    by (auto simp: pick_image_def MCPImage_new_def)
  have clip: "clicked = paste_button \<and> hasImage cb \<and> \<not> isNull (clipboard_image cb)
        \<and> (\<exists>ex. save e (clipboard_image cb) (str ''PNG'') = Inl ex) \<longrightarrow>
        snd (pick_image e clicked file_path cb now) =
          Inr \<lparr>base64_data = [], format = [], filename = str ''error_processing_clipboard''\<rparr>"
    by (auto simp: pick_image_def MCPImage_new_def)
  have none: "(clicked = file_button \<and> file_path = [])
        \<or> (clicked = paste_button \<and> (\<not> hasImage cb \<or> isNull (clipboard_image cb)))
        \<or> clicked = no_button \<longrightarrow>
        snd (pick_image e clicked file_path cb now) =
          Inr \<lparr>base64_data = [], format = [], filename = str ''no_image_selected_or_error''\<rparr>"
    by (auto simp: pick_image_def pick_image_result_def MCPImage_new_def Let_def)
  from total cancel load clip none show ?thesis by blast
qed

theorem pick_image_never_raises_witness:
  "snd (pick_image test_env cancel_button [] \<lparr>hasImage = False, clipboard_image = QImage True []\<rparr>
      \<lparr>year = 2024, month = 1, day = 5, hour = 9, minute = 3, second = 7\<rparr>)
     = Inr \<lparr>base64_data = [], format = [], filename = str ''cancelled_by_user''\<rparr>
   \<and> snd (pick_image test_env file_button (str ''/tmp/broken.png'')
      \<lparr>hasImage = False, clipboard_image = QImage True []\<rparr>
      \<lparr>year = 2024, month = 1, day = 5, hour = 9, minute = 3, second = 7\<rparr>)
     = Inr \<lparr>base64_data = [], format = [], filename = str ''error_loading_file''\<rparr>
   \<and> snd (pick_image test_env paste_button [] \<lparr>hasImage = False, clipboard_image = QImage True []\<rparr>
      \<lparr>year = 2024, month = 1, day = 5, hour = 9, minute = 3, second = 7\<rparr>)
     = Inr \<lparr>base64_data = [], format = [], filename = str ''no_image_selected_or_error''\<rparr>
   \<and> snd (pick_image test_env file_button (str ''/tmp/shot.png'')
      \<lparr>hasImage = False, clipboard_image = QImage True []\<rparr>
      \<lparr>year = 2024, month = 1, day = 5, hour = 9, minute = 3, second = 7\<rparr>)
     = Inr \<lparr>base64_data = str ''iVBORw=='', format = str ''png'', filename = str ''shot.png''\<rparr>"
  using pick_image_never_raises
    [where e = test_env and clicked = cancel_button and file_path = "[]"
       and cb = "\<lparr>hasImage = False, clipboard_image = QImage True []\<rparr>"
       and now = "\<lparr>year = 2024, month = 1, day = 5, hour = 9, minute = 3, second = 7\<rparr>"]
    pick_image_never_raises
    [where e = test_env and clicked = file_button and file_path = "str ''/tmp/broken.png''"
       and cb = "\<lparr>hasImage = False, clipboard_image = QImage True []\<rparr>"
       and now = "\<lparr>year = 2024, month = 1, day = 5, hour = 9, minute = 3, second = 7\<rparr>"]
    pick_image_never_raises
    [where e = test_env and clicked = paste_button and file_path = "[]"
       and cb = "\<lparr>hasImage = False, clipboard_image = QImage True []\<rparr>"
       and now = "\<lparr>year = 2024, month = 1, day = 5, hour = 9, minute = 3, second = 7\<rparr>"]
  by (simp add: eval_defs pick_image_def pick_image_result_def path_name_def b64_char_def
      b64_alphabet_def sextet1_def sextet2_def sextet3_def sextet4_def)

text \<open>
  Claim C6. \<^verbatim>\<open>get_image_info\<close> always returns a string and never raises: for a path
  that does not exist, the "not found" message with the path; for a file that PIL cannot
  open, the "processing" message with the path and the error's text; for an image, its
  format name and both dimensions. The two error messages differ whatever the paths and
  the error text are.
\<close>

theorem get_image_info_never_raises:
  "(\<exists>info. get_image_info e image_path = Inr info)
   \<and> (read_file e image_path = Inl FileNotFoundError \<longrightarrow>
        get_image_info e image_path =
          Inr (str ''Error: Image file not found at '' @ image_path))
   \<and> (read_file e image_path = Inr b \<and> Image_open e b = Inl (Exception msg) \<longrightarrow>
        get_image_info e image_path =
          Inr (str ''Error processing image '' @ image_path @ str '': '' @ msg))
   \<and> (read_file e image_path = Inr b
        \<and> Image_open e b = Inr \<lparr>pil_format = Some fmt, pil_size = (w, h)\<rparr> \<longrightarrow>
        get_image_info e image_path =
          Inr (str ''Image format: '' @ fmt @ str '', size: ('' @ str_nat w @ str '', ''
               @ str_nat h @ str '')''))
   \<and> str ''Error: Image file not found at '' @ image_path
        \<noteq> str ''Error processing image '' @ other_path @ str '': '' @ other_msg"
proof -
  have total: "\<exists>info. get_image_info e image_path = Inr info"
    by (simp add: get_image_info_def split: sum.splits)
  have missing: "read_file e image_path = Inl FileNotFoundError \<longrightarrow>
        get_image_info e image_path =
          Inr (str ''Error: Image file not found at '' @ image_path)"
    by (simp add: get_image_info_def get_image_info_except_def)
  have corrupt: "read_file e image_path = Inr b \<and> Image_open e b = Inl (Exception msg) \<longrightarrow>
        get_image_info e image_path =
          Inr (str ''Error processing image '' @ image_path @ str '': '' @ msg)"
    by (simp add: get_image_info_def get_image_info_except_def)
  have valid: "read_file e image_path = Inr b
        \<and> Image_open e b = Inr \<lparr>pil_format = Some fmt, pil_size = (w, h)\<rparr> \<longrightarrow>
        get_image_info e image_path =
          Inr (str ''Image format: '' @ fmt @ str '', size: ('' @ str_nat w @ str '', ''
               @ str_nat h @ str '')'')"
    by (simp add: get_image_info_def str_format_def str_size_def str_def)
  have distinct: "str ''Error: Image file not found at '' @ image_path
        \<noteq> str ''Error processing image '' @ other_path @ str '': '' @ other_msg"
    by (simp add: str_def)
  from total missing corrupt valid distinct show ?thesis by blast
qed

theorem get_image_info_never_raises_witness:
  "get_image_info test_env (str ''/tmp/none.png'')
     = Inr (str ''Error: Image file not found at /tmp/none.png'')
   \<and> get_image_info test_env (str ''/tmp/broken.png'')
     = Inr (str ''Error processing image /tmp/broken.png: cannot identify image file'')
   \<and> get_image_info test_env (str ''/tmp/shot.png'')
     = Inr (str ''Image format: PNG, size: (10, 20)'')"
  using get_image_info_never_raises
    [where e = test_env and image_path = "str ''/tmp/none.png''"]
    get_image_info_never_raises
    [where e = test_env and image_path = "str ''/tmp/broken.png''" and b = "[0]"
       and msg = "str ''cannot identify image file''"]
    get_image_info_never_raises
    [where e = test_env and image_path = "str ''/tmp/shot.png''" and b = png_bytes
       and fmt = "str ''PNG''" and w = 10 and h = 20]
  by (simp add: eval_defs str_nat.simps)



text \<open>
  Claim C8. \<^verbatim>\<open>remove_image_pyside\<close> with an index in range removes the item at that
  position and nothing else: one item fewer, the items before it stay where they were and
  the items after it move up by one. With an index out of range (negative, or not less
  than the length) the dialog is unchanged.
\<close>

theorem remove_image_removes_one:
  "(0 \<le> index \<and> index < int (length (selected_images_data d)) \<longrightarrow>
      remove_image_pyside index d =
        d\<lparr>selected_images_data :=
            take (nat index) (selected_images_data d)
            @ drop (Suc (nat index)) (selected_images_data d)\<rparr>
      \<and> Suc (length (selected_images_data (remove_image_pyside index d)))
          = length (selected_images_data d)
      \<and> (\<forall>j. j < nat index \<longrightarrow>
            selected_images_data (remove_image_pyside index d) ! j = selected_images_data d ! j)
      \<and> (\<forall>j. nat index \<le> j \<and> Suc j < length (selected_images_data d) \<longrightarrow>
            selected_images_data (remove_image_pyside index d) ! j
              = selected_images_data d ! Suc j))
   \<and> (index < 0 \<or> int (length (selected_images_data d)) \<le> index \<longrightarrow>
        remove_image_pyside index d = d)"
proof -
  let ?xs = "selected_images_data d"
  let ?ys = "take (nat index) ?xs @ drop (Suc (nat index)) ?xs"
  have out: "remove_image_pyside index d = d" if "index < 0 \<or> int (length ?xs) \<le> index"
    using that by (auto simp: remove_image_pyside_def)
  have inside: "remove_image_pyside index d = d\<lparr>selected_images_data := ?ys\<rparr>
      \<and> Suc (length (selected_images_data (remove_image_pyside index d))) = length ?xs
      \<and> (\<forall>j. j < nat index \<longrightarrow> selected_images_data (remove_image_pyside index d) ! j = ?xs ! j)
      \<and> (\<forall>j. nat index \<le> j \<and> Suc j < length ?xs \<longrightarrow>
            selected_images_data (remove_image_pyside index d) ! j = ?xs ! Suc j)"
    if r: "0 \<le> index \<and> index < int (length ?xs)"
  proof -
    have i: "nat index < length ?xs" using r by linarith
    have upd: "remove_image_pyside index d = d\<lparr>selected_images_data := ?ys\<rparr>"
      using r by (simp add: remove_image_pyside_def)
    have len: "Suc (length ?ys) = length ?xs"
      using i by simp
    have before: "?ys ! j = ?xs ! j" if "j < nat index" for j
      using that i by (simp add: nth_append)
    have after: "?ys ! j = ?xs ! Suc j" if "nat index \<le> j" "Suc j < length ?xs" for j
      using that i by (simp add: nth_append min_def)
    from len before after show ?thesis by (simp add: upd)
  qed
  from out inside show ?thesis by blast
qed

theorem remove_image_removes_one_witness:
  "selected_images_data
     (remove_image_pyside 1
        ((FeedbackDialog_init [] 0)\<lparr>selected_images_data :=
           [\<lparr>img_data = [1], img_filename = str ''a'', img_pixmap = Pixmap_loadFromData [1]\<rparr>,
            \<lparr>img_data = [2], img_filename = str ''b'', img_pixmap = Pixmap_loadFromData [2]\<rparr>,
            \<lparr>img_data = [3], img_filename = str ''c'', img_pixmap = Pixmap_loadFromData [3]\<rparr>]\<rparr>))
   = [\<lparr>img_data = [1], img_filename = str ''a'', img_pixmap = Pixmap_loadFromData [1]\<rparr>,
      \<lparr>img_data = [3], img_filename = str ''c'', img_pixmap = Pixmap_loadFromData [3]\<rparr>]
   \<and> remove_image_pyside 3
        ((FeedbackDialog_init [] 0)\<lparr>selected_images_data :=
           [\<lparr>img_data = [1], img_filename = str ''a'', img_pixmap = Pixmap_loadFromData [1]\<rparr>,
            \<lparr>img_data = [2], img_filename = str ''b'', img_pixmap = Pixmap_loadFromData [2]\<rparr>,
            \<lparr>img_data = [3], img_filename = str ''c'', img_pixmap = Pixmap_loadFromData [3]\<rparr>]\<rparr>)
      = (FeedbackDialog_init [] 0)\<lparr>selected_images_data :=
           [\<lparr>img_data = [1], img_filename = str ''a'', img_pixmap = Pixmap_loadFromData [1]\<rparr>,
            \<lparr>img_data = [2], img_filename = str ''b'', img_pixmap = Pixmap_loadFromData [2]\<rparr>,
            \<lparr>img_data = [3], img_filename = str ''c'', img_pixmap = Pixmap_loadFromData [3]\<rparr>]\<rparr>"
  using remove_image_removes_one
    [where index = 1 and d = "(FeedbackDialog_init [] 0)\<lparr>selected_images_data :=
           [\<lparr>img_data = [1], img_filename = str ''a'', img_pixmap = Pixmap_loadFromData [1]\<rparr>,
            \<lparr>img_data = [2], img_filename = str ''b'', img_pixmap = Pixmap_loadFromData [2]\<rparr>,
            \<lparr>img_data = [3], img_filename = str ''c'', img_pixmap = Pixmap_loadFromData [3]\<rparr>]\<rparr>"]
    remove_image_removes_one
    [where index = 3 and d = "(FeedbackDialog_init [] 0)\<lparr>selected_images_data :=
           [\<lparr>img_data = [1], img_filename = str ''a'', img_pixmap = Pixmap_loadFromData [1]\<rparr>,
            \<lparr>img_data = [2], img_filename = str ''b'', img_pixmap = Pixmap_loadFromData [2]\<rparr>,
            \<lparr>img_data = [3], img_filename = str ''c'', img_pixmap = Pixmap_loadFromData [3]\<rparr>]\<rparr>"]
  by simp

text \<open>
  Claim C9. \<^verbatim>\<open>clear_all_images_pyside\<close> on a non-empty list shows the question box;
  answered with Yes, the list becomes empty; answered with No, the list is as before.
  On an empty list it shows nothing and changes nothing, whatever the answer would be.
\<close>

theorem clear_all_images_confirmation:
  "(selected_images_data d \<noteq> [] \<longrightarrow>
       clear_all_images_pyside Yes d = d\<lparr>shown := shown d @ [question], selected_images_data := []\<rparr>
     \<and> clear_all_images_pyside No d = d\<lparr>shown := shown d @ [question]\<rparr>
     \<and> selected_images_data (clear_all_images_pyside No d) = selected_images_data d)
   \<and> (selected_images_data d = [] \<longrightarrow> clear_all_images_pyside reply d = d)"
  by (simp add: clear_all_images_pyside_def Let_def)

theorem clear_all_images_confirmation_witness:
  "selected_images_data
     (clear_all_images_pyside Yes
        ((FeedbackDialog_init [] 0)\<lparr>selected_images_data :=
           [\<lparr>img_data = [1], img_filename = str ''a'', img_pixmap = Pixmap_loadFromData [1]\<rparr>]\<rparr>))
     = []
   \<and> selected_images_data
     (clear_all_images_pyside No
        ((FeedbackDialog_init [] 0)\<lparr>selected_images_data :=
           [\<lparr>img_data = [1], img_filename = str ''a'', img_pixmap = Pixmap_loadFromData [1]\<rparr>]\<rparr>))
     = [\<lparr>img_data = [1], img_filename = str ''a'', img_pixmap = Pixmap_loadFromData [1]\<rparr>]
   \<and> shown
     (clear_all_images_pyside No
        ((FeedbackDialog_init [] 0)\<lparr>selected_images_data :=
           [\<lparr>img_data = [1], img_filename = str ''a'', img_pixmap = Pixmap_loadFromData [1]\<rparr>]\<rparr>))
     = [question]
   \<and> clear_all_images_pyside Yes (FeedbackDialog_init [] 0) = FeedbackDialog_init [] 0"
  using clear_all_images_confirmation
    [where reply = Yes and d = "(FeedbackDialog_init [] 0)\<lparr>selected_images_data :=
           [\<lparr>img_data = [1], img_filename = str ''a'', img_pixmap = Pixmap_loadFromData [1]\<rparr>]\<rparr>"]
    clear_all_images_confirmation [where reply = Yes and d = "FeedbackDialog_init [] 0"]
  by (simp add: FeedbackDialog_init_def)

text \<open>
  Claim C10. \<^verbatim>\<open>paste_from_clipboard_pyside\<close> with a non-null image on the clipboard,
  saved as \<^verbatim>\<open>"PNG"\<close>, appends exactly one record to the end of the list: the saved
  bytes under the name \<^verbatim>\<open>clipboard_image_\<close>, the time stamp, \<^verbatim>\<open>.png\<close>. Without image
  data (or with a null image) the list is unchanged. For a clock reading with a four-digit
  year the time stamp is fifteen characters: eight digits that start with the year, an
  underscore, six digits.
\<close>

theorem paste_from_clipboard_appends_png:
  "(hasImage cb \<and> \<not> isNull (clipboard_image cb) \<and> save e (clipboard_image cb) (str ''PNG'') = Inr png \<longrightarrow>
      selected_images_data (paste_from_clipboard_pyside e cb now d) =
        selected_images_data d @
          [\<lparr>img_data = png,
            img_filename = str ''clipboard_image_'' @ strftime now @ str ''.png'',
            img_pixmap = Pixmap_fromImage (clipboard_image cb)\<rparr>])
   \<and> (\<not> hasImage cb \<or> isNull (clipboard_image cb) \<longrightarrow>
        selected_images_data (paste_from_clipboard_pyside e cb now d) = selected_images_data d)
   \<and> (valid_datetime now \<longrightarrow>
        length (strftime now) = 15 \<and> take 4 (strftime now) = str_nat (year now)
        \<and> list_all isdigit (take 8 (strftime now)) \<and> strftime now ! 8 = 95
        \<and> list_all isdigit (drop 9 (strftime now)))"
proof -
  have valid: "hasImage cb \<and> \<not> isNull (clipboard_image cb) \<and> save e (clipboard_image cb) (str ''PNG'') = Inr png \<longrightarrow>
      selected_images_data (paste_from_clipboard_pyside e cb now d) =
        selected_images_data d @
          [\<lparr>img_data = png,
            img_filename = str ''clipboard_image_'' @ strftime now @ str ''.png'',
            img_pixmap = Pixmap_fromImage (clipboard_image cb)\<rparr>]"
    by (simp add: paste_from_clipboard_pyside_def clipboard_filename_def Let_def)
  have none: "\<not> hasImage cb \<or> isNull (clipboard_image cb) \<longrightarrow>
        selected_images_data (paste_from_clipboard_pyside e cb now d) = selected_images_data d"
    by (auto simp: paste_from_clipboard_pyside_def Let_def)
  from valid none strftime_form [of now] show ?thesis by blast
qed

theorem paste_from_clipboard_appends_png_witness:
  "selected_images_data
     (paste_from_clipboard_pyside
        \<lparr>read_file = (\<lambda>p. Inl FileNotFoundError), Image_open = (\<lambda>b. Inl (Exception [])),
         loadFromData = (\<lambda>b. False), save = (\<lambda>q f. Inr [137, 80, 78, 71])\<rparr>
        \<lparr>hasImage = True, clipboard_image = QImage False [1, 2]\<rparr>
        \<lparr>year = 2024, month = 1, day = 5, hour = 9, minute = 3, second = 7\<rparr>
        (FeedbackDialog_init [] 300))
   = [\<lparr>img_data = [137, 80, 78, 71],
       img_filename = str ''clipboard_image_20240105_090307.png'',
       img_pixmap = Pixmap_fromImage (QImage False [1, 2])\<rparr>]
   \<and> length (strftime \<lparr>year = 2024, month = 1, day = 5, hour = 9, minute = 3, second = 7\<rparr>) = 15"
  using paste_from_clipboard_appends_png
    [where cb = "\<lparr>hasImage = True, clipboard_image = QImage False [1, 2]\<rparr>"
       and e = "\<lparr>read_file = (\<lambda>p. Inl FileNotFoundError), Image_open = (\<lambda>b. Inl (Exception [])),
         loadFromData = (\<lambda>b. False), save = (\<lambda>q f. Inr [137, 80, 78, 71])\<rparr>"
       and png = "[137, 80, 78, 71]"
       and now = "\<lparr>year = 2024, month = 1, day = 5, hour = 9, minute = 3, second = 7\<rparr>"
       and d = "FeedbackDialog_init [] 300"]
  by (simp add: eval_defs clipboard_filename_def valid_datetime_def strftime_def zfill_def
      str_nat.simps)

end
